theory Spec2Isabelle
  imports Complex_Main "HOL-Library.Word"
begin

unbundle bit_operations_syntax

section \<open>The agenda service (app/main.py)\<close>

text \<open>
  The service keeps its contacts in one module-level Python list, \<open>contacts_db\<close>. Every
  handler is modelled as a function that takes the list and returns the handler's result
  together with the list afterwards. A handler that returns normally yields \<open>Inr\<close>
  (FastAPI answers 200); a raised exception yields \<open>Inl\<close>.

  Logging and tracing spans write to side channels only and are left out. The two values
  that a creation reads from its environment, the sixteen bytes of \<open>os.urandom\<close> behind
  \<open>uuid.uuid4()\<close> and the clock behind \<open>datetime.now()\<close>, are inputs of the model.

  The handlers \<open>system_metrics\<close> and \<open>system_metrics_prometheus\<close> report floating-point
  readings of the host taken through psutil; they read the length of the store and
  nothing else of it, and are not part of this model.

  Python strings are sequences of code points. The two accented letters of the source
  are below 256, so each is one \<open>char\<close> here, as it is one code point there.
\<close>

subsection \<open>Data model\<close>

type_synonym datetime = int

record ContactCreate =
  nome :: string
  telefone :: string
  email :: "string option"
  endereco :: "string option"

record Contact =
  id' :: string
  nome :: string
  telefone :: string
  email :: "string option"
  endereco :: "string option"
  created_at :: datetime

datatype error =
  RequestValidationError
  | HTTPException (status_code: nat) (detail: string)

text \<open>The status line FastAPI sends for a handler's outcome.\<close>

fun http_status :: "error + 'a \<Rightarrow> nat" where
  "http_status (Inr _) = 200"
| "http_status (Inl RequestValidationError) = 422"
| "http_status (Inl (HTTPException s d)) = s"

subsection \<open>Request bodies and the ContactCreate schema\<close>

text \<open>
  A parsed JSON body. The schema declares \<open>nome: str\<close> and \<open>telefone: str\<close> (required)
  and \<open>email\<close>, \<open>endereco\<close> as \<open>Optional[str] = None\<close>; it declares no length
  constraint. A JSON string is taken as it is; null, arrays and objects are not strings.
  The validation library takes nothing but a JSON string for \<open>str\<close>: that is the
  instance \<open>strict\<close>, on which the validation of requests is stated. Its first release
  rendered numbers and booleans as strings instead; the parameter \<open>co\<close> keeps what is
  proved about the handlers independent of that. Keys the schema does not know are
  ignored, and the keys of a parsed object are distinct.
\<close>

datatype json =
  JNull
  | JBool bool
  | JNum real
  | JStr string
  | JArr "json list"
  | JObj "(string \<times> json) list"

type_synonym coercion = "json \<Rightarrow> string option"

definition strict :: coercion where
  "strict j = None"

fun str_validator :: "coercion \<Rightarrow> json \<Rightarrow> string option" where
  "str_validator co (JStr s) = Some s"
| "str_validator co (JNum x) = co (JNum x)"
| "str_validator co (JBool b) = co (JBool b)"
| "str_validator co JNull = None"
| "str_validator co (JArr xs) = None"
| "str_validator co (JObj kvs) = None"

text \<open>A required field: \<open>None\<close> is a validation failure.\<close>

definition required_str :: "coercion \<Rightarrow> (string \<times> json) list \<Rightarrow> string \<Rightarrow> string option" where
  "required_str co kvs k =
     (case map_of kvs k of None \<Rightarrow> None | Some v \<Rightarrow> str_validator co v)"

text \<open>
  An optional field: the outer \<open>None\<close> is a validation failure, \<open>Some None\<close> is the
  default taken when the key is absent or null.
\<close>

definition optional_str :: "coercion \<Rightarrow> (string \<times> json) list \<Rightarrow> string \<Rightarrow> string option option" where
  "optional_str co kvs k =
     (case map_of kvs k of
        None \<Rightarrow> Some None
      | Some JNull \<Rightarrow> Some None
      | Some v \<Rightarrow> (case str_validator co v of None \<Rightarrow> None | Some s \<Rightarrow> Some (Some s)))"

definition validate_ContactCreate :: "coercion \<Rightarrow> json \<Rightarrow> ContactCreate option" where
  "validate_ContactCreate co body =
     (case body of
        JObj kvs \<Rightarrow>
          (case (required_str co kvs ''nome'', required_str co kvs ''telefone'',
                 optional_str co kvs ''email'', optional_str co kvs ''endereco'') of
             (Some n, Some t, Some e, Some a) \<Rightarrow>
               Some \<lparr>ContactCreate.nome = n, telefone = t, email = e, endereco = a\<rparr>
           | _ \<Rightarrow> None)
      | _ \<Rightarrow> None)"

subsection \<open>Identifier generation\<close>

text \<open>
  \<open>str(uuid.uuid4())\<close>: the sixteen random bytes are read as a 128-bit integer, the
  variant and version bits are overwritten, and the integer is printed as 32 lower-case
  hexadecimal digits in groups of 8, 4, 4, 4 and 12.
\<close>

definition uuid4 :: "128 word \<Rightarrow> 128 word" where
  "uuid4 r =
     (let i = r AND NOT (push_bit 48 0xc000);
          i = i OR push_bit 48 0x8000;
          i = i AND NOT (push_bit 64 0xf000);
          i = i OR push_bit 76 4
      in i)"

definition hexdigit :: "nat \<Rightarrow> char" where
  "hexdigit n = ''0123456789abcdef'' ! n"

definition hex32 :: "128 word \<Rightarrow> string" where
  "hex32 w = map (\<lambda>k. hexdigit (unat (take_bit 4 (drop_bit (4 * (31 - k)) w)))) [0..<32]"

definition str_UUID :: "128 word \<Rightarrow> string" where
  "str_UUID w =
     (let hex = hex32 w
      in take 8 hex @ ''-'' @ take 4 (drop 8 hex) @ ''-'' @ take 4 (drop 12 hex) @ ''-''
         @ take 4 (drop 16 hex) @ ''-'' @ drop 20 hex)"


subsection \<open>Handlers\<close>

record env =
  urandom :: "128 word"
  now :: datetime

text \<open>
  The two informational handlers return Python dict literals, written here as JSON
  objects.
\<close>

definition root :: "Contact list \<Rightarrow> (error + json) \<times> Contact list" where
  "root contacts_db =
     (Inr (JObj
        [(''message'', JStr (''Bem-vindo '' @ [CHR 0xE0] @ '' API de Agenda!'')),
         (''status'', JStr ''active''),
         (''endpoints'', JObj
            [(''adicionar_contato'', JStr ''POST /contatos''),
             (''listar_contatos'', JStr ''GET /contatos''),
             (''buscar_contato'', JStr ''GET /contatos/{contact_id}''),
             (''health_check'', JStr ''GET /health''),
             (''system_metrics'', JStr ''GET /system-metrics''),
             (''prometheus_metrics'', JStr ''GET /metrics'')])]),
      contacts_db)"

definition health_check :: "Contact list \<Rightarrow> (error + json) \<times> Contact list" where
  "health_check contacts_db =
     (Inr (JObj
        [(''status'', JStr ''healthy''),
         (''service'', JStr ''agenda-api''),
         (''total_contatos'', JNum (real (length contacts_db)))]),
      contacts_db)"

definition adicionar_contato ::
  "env \<Rightarrow> ContactCreate \<Rightarrow> Contact list \<Rightarrow> (error + Contact) \<times> Contact list" where
  "adicionar_contato e contato contacts_db =
     (let contact_id = str_UUID (uuid4 (urandom e));
          new_contact = \<lparr>id' = contact_id,
                         nome = ContactCreate.nome contato,
                         telefone = ContactCreate.telefone contato,
                         email = ContactCreate.email contato,
                         endereco = ContactCreate.endereco contato,
                         created_at = now e\<rparr>
      in (Inr new_contact, contacts_db @ [new_contact]))"

text \<open>The route POST /contatos: the body is validated first, then the handler runs.\<close>

definition post_contatos ::
  "coercion \<Rightarrow> env \<Rightarrow> json \<Rightarrow> Contact list \<Rightarrow> (error + Contact) \<times> Contact list" where
  "post_contatos co e body contacts_db =
     (case validate_ContactCreate co body of
        None \<Rightarrow> (Inl RequestValidationError, contacts_db)
      | Some contato \<Rightarrow> adicionar_contato e contato contacts_db)"

definition visualizar_contatos :: "Contact list \<Rightarrow> (error + Contact list) \<times> Contact list" where
  "visualizar_contatos contacts_db = (Inr contacts_db, contacts_db)"

text \<open>The \<open>for\<close> loop of the lookup, leaving at the first contact whose id matches.\<close>

fun database_search :: "string \<Rightarrow> Contact list \<Rightarrow> Contact option" where
  "database_search contact_id [] = None"
| "database_search contact_id (contact # rest) =
     (if id' contact = contact_id then Some contact else database_search contact_id rest)"

definition nao_encontrado :: string where
  "nao_encontrado = ''Contato n'' @ [CHR 0xE3] @ ''o encontrado''"

definition buscar_contato :: "string \<Rightarrow> Contact list \<Rightarrow> (error + Contact) \<times> Contact list" where
  "buscar_contato contact_id contacts_db =
     (case database_search contact_id contacts_db of
        Some contact \<Rightarrow> (Inr contact, contacts_db)
      | None \<Rightarrow> (Inl (HTTPException 404 nao_encontrado), contacts_db))"

text \<open>
  A run of creation requests against a store: the contacts returned, in request order,
  and the store at the end. The handler raises nothing, so the error branch is there for
  the type only.
\<close>

fun creations :: "(env \<times> ContactCreate) list \<Rightarrow> Contact list \<Rightarrow> Contact list \<times> Contact list" where
  "creations [] contacts_db = ([], contacts_db)"
| "creations ((e, contato) # rest) contacts_db =
     (case adicionar_contato e contato contacts_db of
        (Inr c, db1) \<Rightarrow> (case creations rest db1 of (cs, db2) \<Rightarrow> (c # cs, db2))
      | (Inl err, db1) \<Rightarrow> creations rest db1)"

subsection \<open>Example requests and records\<close>

text \<open>
  Concrete values on which the theorems below are evaluated: three readings of the
  environment (two of them with the same random draw), two payloads, and the records
  that the handler builds from them.
\<close>

definition env_0 :: env where
  "env_0 = \<lparr>urandom = 0, now = 1000\<rparr>"

definition env_0_later :: env where
  "env_0_later = \<lparr>urandom = 0, now = 2000\<rparr>"

definition env_1 :: env where
  "env_1 = \<lparr>urandom = 1, now = 2000\<rparr>"

definition payload_ana :: ContactCreate where
  "payload_ana =
     \<lparr>ContactCreate.nome = ''Ana'', telefone = ''123'', email = None, endereco = None\<rparr>"

definition payload_bia :: ContactCreate where
  "payload_bia =
     \<lparr>ContactCreate.nome = ''Bia'', telefone = ''456'', email = Some ''bia@example.org'',
      endereco = None\<rparr>"

definition ana_0 :: Contact where
  "ana_0 =
     \<lparr>id' = ''00000000-0000-4000-8000-000000000000'', nome = ''Ana'', telefone = ''123'',
      email = None, endereco = None, created_at = 1000\<rparr>"

definition bia_0 :: Contact where
  "bia_0 =
     \<lparr>id' = ''00000000-0000-4000-8000-000000000000'', nome = ''Bia'', telefone = ''456'',
      email = Some ''bia@example.org'', endereco = None, created_at = 2000\<rparr>"

definition bia_1 :: Contact where
  "bia_1 =
     \<lparr>id' = ''00000000-0000-4000-8000-000000000001'', nome = ''Bia'', telefone = ''456'',
      email = Some ''bia@example.org'', endereco = None, created_at = 2000\<rparr>"

section \<open>Properties\<close>

subsection \<open>The lookup loop\<close>

lemma database_search_None: "database_search k db = None \<longleftrightarrow> k \<notin> id' ` set db"
  by (induction db) auto

lemma database_search_first:
  "k \<notin> id' ` set pre \<Longrightarrow> id' c = k \<Longrightarrow> database_search k (pre @ c # post) = Some c"
  by (induction pre) auto

subsection \<open>Identifiers\<close>













lemma id_of_0: "str_UUID (uuid4 0) = ''00000000-0000-4000-8000-000000000000''"
  by (simp add: str_UUID_def uuid4_def hex32_def hexdigit_def upt_rec)

lemma id_of_1: "str_UUID (uuid4 1) = ''00000000-0000-4000-8000-000000000001''"
  by (simp add: str_UUID_def uuid4_def hex32_def hexdigit_def upt_rec)

subsection \<open>Creation\<close>

lemma adicionar_contato_appends:
  "\<exists>c. adicionar_contato e p db = (Inr c, db @ [c]) \<and> id' c = str_UUID (uuid4 (urandom e))"
  by (simp add: adicionar_contato_def Let_def)

lemma creations_result:
  "creations reqs db0 = (cs, db) \<Longrightarrow>
     db = db0 @ cs \<and> length cs = length reqs
     \<and> map id' cs = map (\<lambda>(e, p). str_UUID (uuid4 (urandom e))) reqs"
proof (induction reqs arbitrary: db0 cs db)
  case Nil
  then show ?case by simp
next
  case (Cons r reqs)
  obtain e p where r: "r = (e, p)" by (cases r)
  obtain c where c: "adicionar_contato e p db0 = (Inr c, db0 @ [c])"
    and idc: "id' c = str_UUID (uuid4 (urandom e))"
    using adicionar_contato_appends by blast
  obtain cs' db' where rest: "creations reqs (db0 @ [c]) = (cs', db')"
    by (cases "creations reqs (db0 @ [c])")
  from Cons.prems r c rest have "cs = c # cs'" "db = db'" by simp_all
  with Cons.IH [OF rest] idc r show ?case by simp
qed

subsection \<open>The example values\<close>

lemma create_ana_0: "adicionar_contato env_0 payload_ana db = (Inr ana_0, db @ [ana_0])"
  by (simp add: adicionar_contato_def Let_def env_0_def payload_ana_def ana_0_def id_of_0)

lemma create_bia_0: "adicionar_contato env_0_later payload_bia db = (Inr bia_0, db @ [bia_0])"
  by (simp add: adicionar_contato_def Let_def env_0_later_def payload_bia_def bia_0_def id_of_0)

lemma create_bia_1: "adicionar_contato env_1 payload_bia db = (Inr bia_1, db @ [bia_1])"
  by (simp add: adicionar_contato_def Let_def env_1_def payload_bia_def bia_1_def id_of_1)

lemma validate_body_bia:
  "validate_ContactCreate strict
     (JObj [(''nome'', JStr ''Bia''), (''telefone'', JStr ''456''), (''email'', JStr ''bia@example.org'')])
     = Some payload_bia"
  by (simp add: validate_ContactCreate_def required_str_def optional_str_def payload_bia_def)

subsection \<open>Validation\<close>

lemma str_validator_strict: "str_validator strict v = None \<longleftrightarrow> (\<forall>s. v \<noteq> JStr s)"
  by (cases v) (simp_all add: strict_def)

lemma required_str_strict:
  "required_str strict kvs k = None \<longleftrightarrow> (\<forall>s. map_of kvs k \<noteq> Some (JStr s))"
  by (cases "map_of kvs k") (simp_all add: required_str_def str_validator_strict)

lemma validate_needs_object: "\<forall>kvs. body \<noteq> JObj kvs \<Longrightarrow> validate_ContactCreate co body = None"
  by (cases body) (simp_all add: validate_ContactCreate_def)

lemma validate_needs_required:
  "required_str co kvs ''nome'' = None \<or> required_str co kvs ''telefone'' = None
     \<Longrightarrow> validate_ContactCreate co (JObj kvs) = None"
  by (auto simp: validate_ContactCreate_def split: option.splits)

section \<open>The claims\<close>

subsection \<open>C1: rejected creation requests\<close>

text \<open>
  C1, as written: a creation request whose \<open>nome\<close> or \<open>telefone\<close> is absent, an empty
  string or of the wrong type is rejected with 422 and leaves the store as it was.
  The schema has no length constraint, so the empty string is a valid \<open>str\<close>: a request
  with both fields empty is answered 200 and its record is stored.
\<close>

theorem empty_strings_accepted:
  "post_contatos strict env_0 (JObj [(''nome'', JStr ''''), (''telefone'', JStr '''')]) []
     = (Inr \<lparr>id' = ''00000000-0000-4000-8000-000000000000'', nome = '''', telefone = '''',
              email = None, endereco = None, created_at = 1000\<rparr>,
        [\<lparr>id' = ''00000000-0000-4000-8000-000000000000'', nome = '''', telefone = '''',
              email = None, endereco = None, created_at = 1000\<rparr>])"
  by (simp add: post_contatos_def validate_ContactCreate_def required_str_def optional_str_def
      adicionar_contato_def Let_def env_0_def id_of_0)

text \<open>
  C1, amended: a creation request in which \<open>nome\<close> or \<open>telefone\<close> is absent (also
  because the body is no JSON object at all) or of the wrong type, that is, present with
  any value other than a JSON string (null, a number, a boolean, an array, an object), is
  rejected with the validation error (422), whatever the environment and before the
  handler runs, and the store is returned unchanged. The keys of a parsed object are
  distinct.
\<close>

theorem post_rejects_missing_or_non_string:
  assumes "case body of
             JObj kvs \<Rightarrow>
               distinct (map fst kvs)
               \<and> ((\<forall>s. map_of kvs ''nome'' \<noteq> Some (JStr s))
                    \<or> (\<forall>s. map_of kvs ''telefone'' \<noteq> Some (JStr s)))
           | _ \<Rightarrow> True"
  shows "post_contatos strict e body db = (Inl RequestValidationError, db)
         \<and> http_status (fst (post_contatos strict e body db)) = 422"
proof -
  have "validate_ContactCreate strict body = None"
  proof (cases "\<exists>kvs. body = JObj kvs")
    case True
    then obtain kvs where b: "body = JObj kvs" by blast
    with assms have "(\<forall>s. map_of kvs ''nome'' \<noteq> Some (JStr s))
                   \<or> (\<forall>s. map_of kvs ''telefone'' \<noteq> Some (JStr s))"
      by (simp del: map_of_eq_Some_iff)
    then have "required_str strict kvs ''nome'' = None
             \<or> required_str strict kvs ''telefone'' = None"
      by (simp only: required_str_strict)
    then show ?thesis unfolding b by (rule validate_needs_required)
  next
    case False
    then show ?thesis by (simp add: validate_needs_object)
  qed
  then show ?thesis by (simp add: post_contatos_def)
qed

theorem post_rejects_witness:
  "post_contatos strict env_0 (JObj [(''nome'', JStr ''Ana''), (''telefone'', JNum 123)]) [ana_0]
     = (Inl RequestValidationError, [ana_0])
   \<and> post_contatos strict env_0 (JObj [(''nome'', JNull), (''telefone'', JStr ''123'')]) [ana_0]
     = (Inl RequestValidationError, [ana_0])
   \<and> post_contatos strict env_0 (JObj [(''nome'', JStr ''Ana'')]) [ana_0]
     = (Inl RequestValidationError, [ana_0])
   \<and> post_contatos strict env_0 (JArr [JStr ''Ana'', JStr ''123'']) [ana_0]
     = (Inl RequestValidationError, [ana_0])
   \<and> http_status (fst (post_contatos strict env_0
         (JObj [(''nome'', JStr ''Ana''), (''telefone'', JNum 123)]) [ana_0])) = 422"
proof -
  have h1: "case JObj [(''nome'', JStr ''Ana''), (''telefone'', JNum 123)] of
             JObj kvs \<Rightarrow>
               distinct (map fst kvs)
               \<and> ((\<forall>s. map_of kvs ''nome'' \<noteq> Some (JStr s))
                    \<or> (\<forall>s. map_of kvs ''telefone'' \<noteq> Some (JStr s)))
           | _ \<Rightarrow> True"
    by simp
  have h2: "case JObj [(''nome'', JNull), (''telefone'', JStr ''123'')] of
             JObj kvs \<Rightarrow>
               distinct (map fst kvs)
               \<and> ((\<forall>s. map_of kvs ''nome'' \<noteq> Some (JStr s))
                    \<or> (\<forall>s. map_of kvs ''telefone'' \<noteq> Some (JStr s)))
           | _ \<Rightarrow> True"
    by simp
  have h3: "case JObj [(''nome'', JStr ''Ana'')] of
             JObj kvs \<Rightarrow>
               distinct (map fst kvs)
               \<and> ((\<forall>s. map_of kvs ''nome'' \<noteq> Some (JStr s))
                    \<or> (\<forall>s. map_of kvs ''telefone'' \<noteq> Some (JStr s)))
           | _ \<Rightarrow> True"
    by simp
  have h4: "case JArr [JStr ''Ana'', JStr ''123''] of
             JObj kvs \<Rightarrow>
               distinct (map fst kvs)
               \<and> ((\<forall>s. map_of kvs ''nome'' \<noteq> Some (JStr s))
                    \<or> (\<forall>s. map_of kvs ''telefone'' \<noteq> Some (JStr s)))
           | _ \<Rightarrow> True"
    by simp
  show ?thesis
    using post_rejects_missing_or_non_string [OF h1, of env_0 "[ana_0]"]
      post_rejects_missing_or_non_string [OF h2, of env_0 "[ana_0]"]
      post_rejects_missing_or_non_string [OF h3, of env_0 "[ana_0]"]
      post_rejects_missing_or_non_string [OF h4, of env_0 "[ana_0]"]
    by blast
qed

subsection \<open>C2: looking up a contact that was just created\<close>

text \<open>
  C2, as written: for every valid payload, looking up the id returned by the creation
  returns the record that the creation returned. The lookup returns the first stored
  record with that id, so when the random draw repeats an earlier one the earlier record
  comes back instead.
\<close>

theorem lookup_after_create_counterexample:
  "fst (adicionar_contato env_0_later payload_bia (snd (adicionar_contato env_0 payload_ana [])))
     = Inr bia_0
   \<and> fst (buscar_contato (id' bia_0)
            (snd (adicionar_contato env_0_later payload_bia
                    (snd (adicionar_contato env_0 payload_ana [])))))
       = Inr ana_0
   \<and> ana_0 \<noteq> bia_0"
  by (simp add: create_ana_0 create_bia_0 buscar_contato_def) (simp add: ana_0_def bia_0_def)

text \<open>
  C2, amended: for every valid payload whose generated id is not the id of a contact
  already stored, looking up the id returned by the creation returns exactly the record
  that the creation returned.
\<close>

theorem lookup_after_create:
  assumes "adicionar_contato e p db = (Inr c, db')" and "id' c \<notin> id' ` set db"
  shows "buscar_contato (id' c) db' = (Inr c, db')"
proof -
  from assms(1) adicionar_contato_appends [of e p db] have db': "db' = db @ c # []" by auto
  have "database_search (id' c) (db @ c # []) = Some c"
    using assms(2) by (rule database_search_first) simp
  then show ?thesis by (simp add: buscar_contato_def db')
qed

theorem lookup_after_create_witness:
  "adicionar_contato env_1 payload_bia [ana_0] = (Inr bia_1, [ana_0, bia_1])
   \<and> id' bia_1 \<notin> id' ` set [ana_0]
   \<and> buscar_contato (id' bia_1) [ana_0, bia_1] = (Inr bia_1, [ana_0, bia_1])"
proof -
  have h1: "adicionar_contato env_1 payload_bia [ana_0] = (Inr bia_1, [ana_0, bia_1])"
    by (simp add: create_bia_1)
  have h2: "id' bia_1 \<notin> id' ` set [ana_0]"
    by (simp add: ana_0_def bia_1_def)
  show ?thesis using h1 h2 lookup_after_create [OF h1 h2] by simp
qed

subsection \<open>C3: listing\<close>

text \<open>
  C3: after N successful creations from the empty store, GET /contatos returns exactly
  the N contacts those creations returned, in creation order, and leaves them as they are.
\<close>

theorem listing_after_creations:
  assumes "creations reqs [] = (cs, db)"
  shows "visualizar_contatos db = (Inr cs, db) \<and> length cs = length reqs"
  using creations_result [OF assms] by (simp add: visualizar_contatos_def)

theorem listing_after_creations_witness:
  "creations [(env_0, payload_ana), (env_1, payload_bia)] [] = ([ana_0, bia_1], [ana_0, bia_1])
   \<and> visualizar_contatos [ana_0, bia_1] = (Inr [ana_0, bia_1], [ana_0, bia_1])
   \<and> length [ana_0, bia_1] = length [(env_0, payload_ana), (env_1, payload_bia)]"
proof -
  have h: "creations [(env_0, payload_ana), (env_1, payload_bia)] []
             = ([ana_0, bia_1], [ana_0, bia_1])"
    by (simp add: create_ana_0 create_bia_1)
  show ?thesis using h listing_after_creations [OF h] by simp
qed

subsection \<open>C4: unknown identifiers\<close>

text \<open>
  C4: for an identifier that is the id of no stored contact, GET /contatos/{id} returns
  no contact; it fails with status 404 and the source's message, whose tenth character
  is the letter a with tilde (code point E3).
\<close>

theorem lookup_unknown_id:
  assumes "k \<notin> id' ` set db"
  shows "buscar_contato k db =
           (Inl (HTTPException 404 (''Contato n'' @ [CHR 0xE3] @ ''o encontrado'')), db)
         \<and> http_status (fst (buscar_contato k db)) = 404"
  using assms database_search_None [of k db]
  by (simp add: buscar_contato_def nao_encontrado_def)

theorem lookup_unknown_id_witness:
  "''does-not-exist'' \<notin> id' ` set [ana_0, bia_1]
   \<and> buscar_contato ''does-not-exist'' [ana_0, bia_1]
       = (Inl (HTTPException 404 (''Contato n'' @ [CHR 0xE3] @ ''o encontrado'')), [ana_0, bia_1])
   \<and> http_status (fst (buscar_contato ''does-not-exist'' [ana_0, bia_1])) = 404"
proof -
  have h: "''does-not-exist'' \<notin> id' ` set [ana_0, bia_1]"
    by (simp add: ana_0_def bia_1_def)
  show ?thesis using h lookup_unknown_id [OF h] by simp
qed

subsection \<open>C5: the lookup returns the first match\<close>

text \<open>
  C5: the lookup walks the store from its oldest record and returns the first one whose
  id is the requested id: whatever follows that record, also further records with the
  same id, plays no role.
\<close>

theorem lookup_first_match:
  assumes "k \<notin> id' ` set pre" and "id' c = k"
  shows "buscar_contato k (pre @ c # post) = (Inr c, pre @ c # post)"
  using database_search_first [OF assms] by (simp add: buscar_contato_def)

theorem lookup_first_match_witness:
  "id' ana_0 \<notin> id' ` set [bia_1] \<and> id' ana_0 = id' ana_0 \<and> id' bia_0 = id' ana_0
   \<and> buscar_contato (id' ana_0) ([bia_1] @ ana_0 # [bia_0])
       = (Inr ana_0, [bia_1] @ ana_0 # [bia_0])"
proof -
  have h1: "id' ana_0 \<notin> id' ` set [bia_1]"
    by (simp add: ana_0_def bia_1_def)
  have h2: "id' ana_0 = id' ana_0" by simp
  have h3: "id' bia_0 = id' ana_0"
    by (simp add: ana_0_def bia_0_def)
  show ?thesis using h1 h3 lookup_first_match [OF h1 h2, of "[bia_0]"] by simp
qed

subsection \<open>C6: identifiers\<close>




subsection \<open>C8: the informational routes\<close>

text \<open>
  C8: GET /health and GET / answer 200 for every store, the empty one included, return
  the store as they found it, and the health body reports as \<open>total_contatos\<close> the
  number of stored contacts.
\<close>

theorem health_and_root_succeed:
  "health_check db =
     (Inr (JObj [(''status'', JStr ''healthy''), (''service'', JStr ''agenda-api''),
                 (''total_contatos'', JNum (real (length db)))]), db)
   \<and> http_status (fst (health_check db)) = 200
   \<and> http_status (fst (root db)) = 200 \<and> snd (root db) = db"
  by (simp add: health_check_def root_def)

subsection \<open>C9: a creation appends one record\<close>

text \<open>
  C9: a POST /contatos that succeeds puts exactly the returned record at the end of the
  store: the store is one longer, and the records that were there keep their places.
\<close>

theorem post_appends_one:
  assumes "post_contatos co e body db = (Inr c, db')"
  shows "db' = db @ [c] \<and> length db' = length db + 1 \<and> take (length db) db' = db"
proof -
  from assms obtain p where "adicionar_contato e p db = (Inr c, db')"
    by (auto simp: post_contatos_def split: option.splits)
  with adicionar_contato_appends [of e p db] show ?thesis by auto
qed

theorem post_appends_one_witness:
  "post_contatos strict env_1
     (JObj [(''nome'', JStr ''Bia''), (''telefone'', JStr ''456''),
            (''email'', JStr ''bia@example.org'')]) [ana_0]
     = (Inr bia_1, [ana_0, bia_1])
   \<and> [ana_0, bia_1] = [ana_0] @ [bia_1] \<and> length [ana_0, bia_1] = length [ana_0] + 1
   \<and> take (length [ana_0]) [ana_0, bia_1] = [ana_0]"
proof -
  have h: "post_contatos strict env_1
             (JObj [(''nome'', JStr ''Bia''), (''telefone'', JStr ''456''),
                    (''email'', JStr ''bia@example.org'')]) [ana_0]
             = (Inr bia_1, [ana_0, bia_1])"
    by (simp add: post_contatos_def validate_body_bia create_bia_1)
  show ?thesis using h post_appends_one [OF h] by blast
qed

subsection \<open>C10: the reading routes\<close>

text \<open>
  C10: GET /contatos and GET /contatos/{id} return the store as they found it, for every
  store and every identifier, so also when the lookup ends in the 404 error.
\<close>

theorem reads_leave_store_unchanged:
  "snd (visualizar_contatos db) = db \<and> snd (buscar_contato k db) = db"
  by (simp add: visualizar_contatos_def buscar_contato_def split: option.split)


end
